theory Spec2Isabelle
  imports Complex_Main
begin

section \<open>Data model of server.js\<close>

text \<open>
  The store is the JSON document behind \<^verbatim>\<open>readDB\<close>/\<^verbatim>\<open>writeDB\<close>: three arrays,
  \<^verbatim>\<open>users\<close>, \<^verbatim>\<open>requests\<close> and \<^verbatim>\<open>logs\<close>. Every handler reads the whole document,
  works on the in-memory copy and writes it back on its success path only; the model
  passes the document in and returns the document that is in the file afterwards.
  The file operations succeed. A handler runs from its first line to its last without
  another one in between, except \<^verbatim>\<open>/api/requests/approve\<close>, which gives way at its
  \<^verbatim>\<open>await\<close>; that handler is modelled both as one step and as the two halves that
  other handlers can fall between.

  Fields have the types of the data model. A field of a request body is
  \<open>None\<close> when the body does not carry it (or carries \<^verbatim>\<open>null\<close>), so JavaScript's
  \<^verbatim>\<open>!x\<close> is true for \<open>None\<close>, for the empty string and for the number 0.
  A duration is a number of hours, whole or fractional: a rational here, with exact
  arithmetic in place of the rounding of doubles. A date string written by
  \<^verbatim>\<open>toISOString\<close> is represented by its time value, the whole milliseconds since the
  epoch.
\<close>

type_synonym timestamp = int

datatype status = Pending | Approved | Rejected

record user =
  user_id :: string
  name :: string
  username :: string
  password :: string
  role :: string
  email :: string

text \<open>The object \<^verbatim>\<open>qrData\<close> built by the approve handler, which is also what a scan
  of the pass hands to the verifier.\<close>

record pass_payload =
  passId :: string
  qr_studentId :: string
  qr_studentName :: string
  qr_reason :: string
  qr_approvedAt :: timestamp
  qr_expiresAt :: timestamp
  used :: bool

text \<open>A request. \<^verbatim>\<open>moderatorRemarks\<close>, \<^verbatim>\<open>qrCode\<close> and \<^verbatim>\<open>expiresAt\<close> are created
  as \<^verbatim>\<open>null\<close>; \<^verbatim>\<open>approvedAt\<close>, \<^verbatim>\<open>rejectionReason\<close>, \<^verbatim>\<open>rejectedAt\<close> and \<^verbatim>\<open>qrData\<close>
  do not exist until a handler assigns them. Both are \<open>None\<close> here.\<close>

record request =
  req_id :: string
  studentId :: string
  studentName :: string
  reason :: string
  expectedTime :: string
  duration :: rat
  status :: status
  createdAt :: timestamp
  moderatorRemarks :: "string option"
  qrCode :: "string option"
  expiresAt :: "timestamp option"
  approvedAt :: "timestamp option"
  rejectionReason :: "string option"
  rejectedAt :: "timestamp option"
  qrData :: "pass_payload option"

record log_entry =
  log_id :: string
  log_passId :: string
  log_studentId :: string
  log_studentName :: string
  log_type :: string
  log_timestamp :: timestamp
  log_reason :: string

record db =
  users :: "user list"
  requests :: "request list"
  logs :: "log_entry list"

text \<open>What a handler answers when it does not answer with its result: an HTTP status
  with the \<^verbatim>\<open>error\<close> string of the body, or the \<^verbatim>\<open>RangeError\<close> that \<^verbatim>\<open>toISOString\<close>
  throws on an invalid date and the \<^verbatim>\<open>TypeError\<close> of reading a property of
  \<^verbatim>\<open>null\<close>, which no handler catches.\<close>

datatype failure = HttpError nat string | UncaughtRangeError | UncaughtTypeError

text \<open>The body of the answer of \<^verbatim>\<open>/api/qr/verify\<close>; \<^verbatim>\<open>details\<close> is absent on the
  first three branches.\<close>

record verdict =
  valid :: bool
  message :: string
  color :: string
  details :: "pass_payload option"

section \<open>Helpers\<close>

text \<open>\<^verbatim>\<open>!x\<close> on a string field and on a number field of a request body.\<close>

definition falsy_str :: "string option \<Rightarrow> bool" where
  "falsy_str x = (case x of None \<Rightarrow> True | Some s \<Rightarrow> s = [])"

definition falsy_num :: "rat option \<Rightarrow> bool" where
  "falsy_num x = (case x of None \<Rightarrow> True | Some n \<Rightarrow> n = 0)"

text \<open>The decimal digits of a number, as a template literal prints it.\<close>

fun decimal :: "nat \<Rightarrow> string" where
  "decimal n =
     (if n < 10 then [''0123456789'' ! n]
      else decimal (n div 10) @ [''0123456789'' ! (n mod 10)])"

declare decimal.simps [simp del]

definition show_int :: "int \<Rightarrow> string" where
  "show_int i = (if i < 0 then CHR ''-'' # decimal (nat (- i)) else decimal (nat i))"

text \<open>\<^verbatim>\<open>generateID(prefix)\<close>: the prefix, \<^verbatim>\<open>Date.now()\<close> and
  \<^verbatim>\<open>Math.floor(Math.random() * 1000)\<close>; the clock reading \<open>t\<close> and the random
  number \<open>rnd\<close> are inputs of the model.\<close>

definition generateID :: "string \<Rightarrow> int \<Rightarrow> nat \<Rightarrow> string" where
  "generateID prefix t rnd = prefix @ show_int t @ decimal rnd"

text \<open>\<^verbatim>\<open>new Date(t)\<close> on a number: a time value of more than 8.64e15 milliseconds
  either side of the epoch makes an invalid date, and any other number is cut to a whole
  number of milliseconds, towards zero.\<close>

definition valid_date :: "rat \<Rightarrow> bool" where
  "valid_date t = (\<bar>t\<bar> \<le> 8640000000000000)"

definition js_trunc :: "rat \<Rightarrow> int" where
  "js_trunc t = (if 0 \<le> t then \<lfloor>t\<rfloor> else \<lceil>t\<rceil>)"

text \<open>\<^verbatim>\<open>find\<close> returns the first matching element of the array itself, so an
  assignment to a field of what it returned changes that element of the array.\<close>

fun update_first :: "('a \<Rightarrow> bool) \<Rightarrow> ('a \<Rightarrow> 'a) \<Rightarrow> 'a list \<Rightarrow> 'a list" where
  "update_first P f [] = []"
| "update_first P f (x # xs) = (if P x then f x # xs else x # update_first P f xs)"

section \<open>The handlers\<close>

subsection \<open>POST /api/requests/create\<close>

definition createRequest ::
  "int \<Rightarrow> nat \<Rightarrow> timestamp \<Rightarrow> string option \<Rightarrow> string option \<Rightarrow> string option \<Rightarrow> rat option
     \<Rightarrow> db \<Rightarrow> db \<times> (failure + request)" where
  "createRequest t rnd now studentId' reason' expectedTime' duration' d =
     (if falsy_str studentId' \<or> falsy_str reason' \<or> falsy_str expectedTime' \<or> falsy_num duration'
      then (d, Inl (HttpError 400 ''All fields required''))
      else
        (case find (\<lambda>u. user_id u = the studentId' \<and> role u = ''student'') (users d) of
           None \<Rightarrow> (d, Inl (HttpError 404 ''Student not found''))
         | Some student \<Rightarrow>
             (let newRequest =
                    \<lparr> req_id = generateID ''REQ'' t rnd,
                      studentId = the studentId',
                      studentName = name student,
                      reason = the reason',
                      expectedTime = the expectedTime',
                      duration = the duration',
                      status = Pending,
                      createdAt = now,
                      moderatorRemarks = None,
                      qrCode = None,
                      expiresAt = None,
                      approvedAt = None,
                      rejectionReason = None,
                      rejectedAt = None,
                      qrData = None \<rparr>
              in (d\<lparr>requests := requests d @ [newRequest]\<rparr>, Inr newRequest))))"

subsection \<open>POST /api/requests/approve\<close>

text \<open>\<open>now\<close> is the reading of \<^verbatim>\<open>new Date()\<close>, a valid date. \<open>toDataURL\<close> is
  \<^verbatim>\<open>QRCode.toDataURL(JSON.stringify(qrData))\<close>: \<open>None\<close> when the promise is rejected,
  which the handler's \<^verbatim>\<open>catch\<close> answers with status 500. The two \<^verbatim>\<open>toISOString\<close>
  calls that build \<^verbatim>\<open>qrData\<close> come before the guarded block, so the \<^verbatim>\<open>RangeError\<close>
  of an expiry beyond the range of dates is not caught; nothing has been assigned or
  written at that point.\<close>

definition approve ::
  "timestamp \<Rightarrow> (pass_payload \<Rightarrow> string option) \<Rightarrow> string option \<Rightarrow> string option
     \<Rightarrow> db \<Rightarrow> db \<times> (failure + request)" where
  "approve now toDataURL requestId remarks d =
     (if falsy_str requestId then (d, Inl (HttpError 400 ''Request ID required''))
      else
        (case find (\<lambda>r. req_id r = the requestId) (requests d) of
           None \<Rightarrow> (d, Inl (HttpError 404 ''Request not found''))
         | Some request \<Rightarrow>
             if status request \<noteq> Pending
             then (d, Inl (HttpError 400 ''Request already processed''))
             else
               (let approvalTime = now;
                    t = of_int approvalTime + duration request * 60 * 60 * 1000
                in if \<not> valid_date t then (d, Inl UncaughtRangeError)
                   else
                     (let expiryTime = js_trunc t;
                          qr = \<lparr> passId = req_id request,
                                 qr_studentId = studentId request,
                                 qr_studentName = studentName request,
                                 qr_reason = reason request,
                                 qr_approvedAt = approvalTime,
                                 qr_expiresAt = expiryTime,
                                 used = False \<rparr>
                      in case toDataURL qr of
                           None \<Rightarrow> (d, Inl (HttpError 500 ''Failed to generate QR code''))
                         | Some qrCodeURL \<Rightarrow>
                             (let request' = request
                                    \<lparr> status := Approved,
                                      moderatorRemarks :=
                                        Some (if falsy_str remarks then ''Approved'' else the remarks),
                                      approvedAt := Some approvalTime,
                                      expiresAt := Some expiryTime,
                                      qrCode := Some qrCodeURL,
                                      qrData := Some qr \<rparr>
                              in (d\<lparr>requests :=
                                      update_first (\<lambda>r. req_id r = the requestId)
                                        (\<lambda>_. request') (requests d)\<rparr>,
                                  Inr request'))))))"

text \<open>The same handler in its two halves. The first runs from \<^verbatim>\<open>readDB()\<close> to the call
  of the encoder and then gives way at \<^verbatim>\<open>await\<close>, holding the document it read, the
  request \<^verbatim>\<open>find\<close> returned in it, and what it computed; \<open>sus_outcome\<close> is what the
  encoder's promise settles with. The second runs when the promise has settled: a
  rejected promise is answered with status 500 and nothing is written, so the file stays
  as it is by then (\<open>cur\<close>); otherwise the request of the document held is assigned to and
  that document is written over the file, whatever the file holds by then.\<close>

record suspended =
  sus_db :: db
  sus_requestId :: string
  sus_request :: request
  sus_remarks :: "string option"
  sus_approvalTime :: timestamp
  sus_expiryTime :: timestamp
  sus_qrData :: pass_payload
  sus_outcome :: "string option"

definition approve_begin ::
  "timestamp \<Rightarrow> (pass_payload \<Rightarrow> string option) \<Rightarrow> string option \<Rightarrow> string option
     \<Rightarrow> db \<Rightarrow> failure + suspended" where
  "approve_begin now toDataURL requestId remarks d =
     (if falsy_str requestId then Inl (HttpError 400 ''Request ID required'')
      else
        (case find (\<lambda>r. req_id r = the requestId) (requests d) of
           None \<Rightarrow> Inl (HttpError 404 ''Request not found'')
         | Some request \<Rightarrow>
             if status request \<noteq> Pending
             then Inl (HttpError 400 ''Request already processed'')
             else
               (let approvalTime = now;
                    t = of_int approvalTime + duration request * 60 * 60 * 1000
                in if \<not> valid_date t then Inl UncaughtRangeError
                   else
                     (let expiryTime = js_trunc t;
                          qr = \<lparr> passId = req_id request,
                                 qr_studentId = studentId request,
                                 qr_studentName = studentName request,
                                 qr_reason = reason request,
                                 qr_approvedAt = approvalTime,
                                 qr_expiresAt = expiryTime,
                                 used = False \<rparr>
                      in Inr \<lparr> sus_db = d,
                               sus_requestId = the requestId,
                               sus_request = request,
                               sus_remarks = remarks,
                               sus_approvalTime = approvalTime,
                               sus_expiryTime = expiryTime,
                               sus_qrData = qr,
                               sus_outcome = toDataURL qr \<rparr>))))"

definition approve_resume :: "suspended \<Rightarrow> db \<Rightarrow> db \<times> (failure + request)" where
  "approve_resume s cur =
     (case sus_outcome s of
        None \<Rightarrow> (cur, Inl (HttpError 500 ''Failed to generate QR code''))
      | Some qrCodeURL \<Rightarrow>
          (let request' = (sus_request s)
                 \<lparr> status := Approved,
                   moderatorRemarks :=
                     Some (if falsy_str (sus_remarks s) then ''Approved''
                           else the (sus_remarks s)),
                   approvedAt := Some (sus_approvalTime s),
                   expiresAt := Some (sus_expiryTime s),
                   qrCode := Some qrCodeURL,
                   qrData := Some (sus_qrData s) \<rparr>
           in ((sus_db s)\<lparr>requests :=
                   update_first (\<lambda>r. req_id r = sus_requestId s)
                     (\<lambda>_. request') (requests (sus_db s))\<rparr>,
               Inr request')))"

subsection \<open>POST /api/requests/reject\<close>

definition reject ::
  "timestamp \<Rightarrow> string option \<Rightarrow> string option \<Rightarrow> db \<Rightarrow> db \<times> (failure + request)" where
  "reject now requestId reason' d =
     (if falsy_str requestId \<or> falsy_str reason'
      then (d, Inl (HttpError 400 ''Request ID and reason required''))
      else
        (case find (\<lambda>r. req_id r = the requestId) (requests d) of
           None \<Rightarrow> (d, Inl (HttpError 404 ''Request not found''))
         | Some request \<Rightarrow>
             if status request \<noteq> Pending
             then (d, Inl (HttpError 400 ''Request already processed''))
             else
               (let request' = request
                      \<lparr> status := Rejected,
                        rejectionReason := Some (the reason'),
                        rejectedAt := Some now \<rparr>
                in (d\<lparr>requests :=
                        update_first (\<lambda>r. req_id r = the requestId)
                          (\<lambda>_. request') (requests d)\<rparr>,
                    Inr request'))))"

subsection \<open>POST /api/qr/verify\<close>

text \<open>The decision on a parsed payload, from \<^verbatim>\<open>readDB()\<close> on. The handler reads the
  store and never writes it.\<close>

definition verify :: "timestamp \<Rightarrow> pass_payload \<Rightarrow> db \<Rightarrow> verdict" where
  "verify now parsedData d =
     (case find (\<lambda>r. req_id r = passId parsedData) (requests d) of
        None \<Rightarrow>
          \<lparr> valid = False, message = ''Pass not found'', color = ''red'', details = None \<rparr>
      | Some request \<Rightarrow>
          if status request \<noteq> Approved
          then \<lparr> valid = False, message = ''Pass not approved'', color = ''red'',
                 details = None \<rparr>
          else if used parsedData
          then \<lparr> valid = False, message = ''Pass already used'', color = ''red'',
                 details = None \<rparr>
          else if now > qr_expiresAt parsedData
          then \<lparr> valid = False, message = ''Pass expired'', color = ''red'',
                 details = Some parsedData \<rparr>
          else \<lparr> valid = True, message = ''Valid pass'', color = ''green'',
                 details = Some parsedData \<rparr>)"

text \<open>What \<^verbatim>\<open>JSON.parse\<close> makes of the scanned string: it throws; or it yields
  \<^verbatim>\<open>null\<close>, and reading \<^verbatim>\<open>parsedData.passId\<close> throws a \<^verbatim>\<open>TypeError\<close> outside the
  guarded block; or it yields a value with no \<^verbatim>\<open>passId\<close> (a number, a string, a
  boolean, an array, an object without the field), whose \<^verbatim>\<open>passId\<close> is
  \<^verbatim>\<open>undefined\<close> and equals the identifier of no request; or it yields a PassPayload of
  the data model.\<close>

datatype parsed = ParseThrows | ParsedNull | ParsedWithoutPassId | ParsedPayload pass_payload

text \<open>The whole handler, with \<^verbatim>\<open>JSON.parse\<close> as \<open>parse\<close>.\<close>

definition qr_verify ::
  "(string \<Rightarrow> parsed) \<Rightarrow> timestamp \<Rightarrow> string option \<Rightarrow> db \<Rightarrow> failure + verdict" where
  "qr_verify parse now qrData' d =
     (if falsy_str qrData' then Inl (HttpError 400 ''QR data required'')
      else
        (case parse (the qrData') of
           ParseThrows \<Rightarrow> Inl (HttpError 400 ''Invalid QR data format'')
         | ParsedNull \<Rightarrow> Inl UncaughtTypeError
         | ParsedWithoutPassId \<Rightarrow>
             Inr \<lparr> valid = False, message = ''Pass not found'', color = ''red'',
                   details = None \<rparr>
         | ParsedPayload parsedData \<Rightarrow> Inr (verify now parsedData d)))"

subsection \<open>POST /api/logs/entry\<close>

text \<open>\<^verbatim>\<open>if (request.qrData) request.qrData.used = true\<close>, on the request that
  \<^verbatim>\<open>find\<close> returned.\<close>

definition mark_used :: "request \<Rightarrow> request" where
  "mark_used r =
     (case qrData r of
        None \<Rightarrow> r
      | Some q \<Rightarrow> r\<lparr>qrData := Some (q\<lparr>used := True\<rparr>)\<rparr>)"

definition recordEntry ::
  "int \<Rightarrow> nat \<Rightarrow> timestamp \<Rightarrow> string option \<Rightarrow> string option \<Rightarrow> db
     \<Rightarrow> db \<times> (failure + log_entry)" where
  "recordEntry t rnd now passId' type' d =
     (if falsy_str passId' \<or> falsy_str type'
      then (d, Inl (HttpError 400 ''Pass ID and type required''))
      else
        (case find (\<lambda>r. req_id r = the passId') (requests d) of
           None \<Rightarrow> (d, Inl (HttpError 404 ''Pass not found''))
         | Some request \<Rightarrow>
             (let logEntry =
                    \<lparr> log_id = generateID ''LOG'' t rnd,
                      log_passId = the passId',
                      log_studentId = studentId request,
                      log_studentName = studentName request,
                      log_type = the type',
                      log_timestamp = now,
                      log_reason = reason request \<rparr>
              in (d\<lparr>requests :=
                      update_first (\<lambda>r. req_id r = the passId') mark_used (requests d),
                    logs := logs d @ [logEntry]\<rparr>,
                  Inr logEntry))))"

section \<open>Sequences of operations\<close>

text \<open>One call of a core operation, with everything it reads from outside the store:
  the clock readings, the random number, the outcome of the encoder and the fields of the
  body. \<open>step\<close> is the store after the call when no other call falls inside it;
  \<^verbatim>\<open>/api/qr/verify\<close> answers from the store as it is and leaves it as it was.\<close>

datatype op =
    CreateRequest int nat timestamp "string option" "string option" "string option" "rat option"
  | Approve timestamp "pass_payload \<Rightarrow> string option" "string option" "string option"
  | Reject timestamp "string option" "string option"
  | Verify timestamp pass_payload
  | RecordEntry int nat timestamp "string option" "string option"

fun step :: "op \<Rightarrow> db \<Rightarrow> db" where
  "step (CreateRequest t rnd now s r e du) d = fst (createRequest t rnd now s r e du d)"
| "step (Approve now enc rid rm) d = fst (approve now enc rid rm d)"
| "step (Reject now rid rs) d = fst (reject now rid rs d)"
| "step (Verify now p) d = d"
| "step (RecordEntry t rnd now pid ty) d = fst (recordEntry t rnd now pid ty d)"

fun run :: "op list \<Rightarrow> db \<Rightarrow> db" where
  "run [] d = d"
| "run (x # xs) d = run xs (step x d)"

text \<open>The server with approvals under way. An event is a whole call (\<open>Atomic\<close>, which
  for an approval means that nothing falls between its two halves), the first half of an
  approval, or the second half of the approval at a position of the list of those under
  way. \<open>execs\<close> runs a schedule of events.\<close>

record server =
  store :: db
  inflight :: "suspended list"

datatype event =
    Atomic op
  | ApproveBegin timestamp "pass_payload \<Rightarrow> string option" "string option" "string option"
  | ApproveResume nat

fun exec :: "event \<Rightarrow> server \<Rightarrow> server" where
  "exec (Atomic x) s = s\<lparr>store := step x (store s)\<rparr>"
| "exec (ApproveBegin now enc rid rm) s =
     (case approve_begin now enc rid rm (store s) of
        Inl e \<Rightarrow> s
      | Inr p \<Rightarrow> s\<lparr>inflight := inflight s @ [p]\<rparr>)"
| "exec (ApproveResume k) s =
     (if k < length (inflight s)
      then s\<lparr>store := fst (approve_resume (inflight s ! k) (store s)),
             inflight := take k (inflight s) @ drop (Suc k) (inflight s)\<rparr>
      else s)"

fun execs :: "event list \<Rightarrow> server \<Rightarrow> server" where
  "execs [] s = s"
| "execs (e # es) s = execs es (exec e s)"

section \<open>Observations on the store\<close>

text \<open>The \<^verbatim>\<open>used\<close> flag that the store holds for an identifier: the flag of
  \<^verbatim>\<open>qrData\<close> of the request that \<^verbatim>\<open>find\<close> returns, when there is one.\<close>

definition stored_used :: "string \<Rightarrow> db \<Rightarrow> bool option" where
  "stored_used rid d =
     (case find (\<lambda>r. req_id r = rid) (requests d) of
        None \<Rightarrow> None
      | Some r \<Rightarrow> map_option used (qrData r))"

text \<open>The same store with the \<^verbatim>\<open>used\<close> flag of every stored \<^verbatim>\<open>qrData\<close> replaced
  by a flag chosen per request; nothing else differs.\<close>

definition set_stored_used :: "(request \<Rightarrow> bool) \<Rightarrow> db \<Rightarrow> db" where
  "set_stored_used f d =
     d\<lparr>requests :=
         map (\<lambda>r. case qrData r of None \<Rightarrow> r | Some q \<Rightarrow> r\<lparr>qrData := Some (q\<lparr>used := f r\<rparr>)\<rparr>)
           (requests d)\<rparr>"

section \<open>A small store\<close>

text \<open>One student and one request of two hours, as \<^verbatim>\<open>/api/requests/create\<close> leaves
  it, then the same store after an approval at 1700000100000 and after a rejection at
  the same time; the store with a request of one ten-millionth of an hour instead; and
  the server on the first store with no approval under way.\<close>

definition example_student :: user where
  "example_student =
     \<lparr>user_id = ''S001'', name = ''Asha'', username = ''asha'', password = ''secret'',
      role = ''student'', email = ''asha@example.org''\<rparr>"

definition example_request :: request where
  "example_request =
     \<lparr>req_id = ''REQ1700000000000123'', studentId = ''S001'', studentName = ''Asha'',
      reason = ''medical'', expectedTime = ''10:00'', duration = 2, status = Pending,
      createdAt = 1700000000000, moderatorRemarks = None, qrCode = None, expiresAt = None,
      approvedAt = None, rejectionReason = None, rejectedAt = None, qrData = None\<rparr>"

definition example_db :: db where
  "example_db = \<lparr>users = [example_student], requests = [example_request], logs = []\<rparr>"

definition example_payload :: pass_payload where
  "example_payload =
     \<lparr>passId = ''REQ1700000000000123'', qr_studentId = ''S001'', qr_studentName = ''Asha'',
      qr_reason = ''medical'', qr_approvedAt = 1700000100000, qr_expiresAt = 1700007300000,
      used = False\<rparr>"

definition example_encoder :: "pass_payload \<Rightarrow> string option" where
  "example_encoder q = Some (''data:image/png;base64,'' @ passId q)"

definition example_approved_request :: request where
  "example_approved_request =
     example_request
       \<lparr>status := Approved, moderatorRemarks := Some ''ok'',
        approvedAt := Some 1700000100000, expiresAt := Some 1700007300000,
        qrCode := Some ''data:image/png;base64,REQ1700000000000123'',
        qrData := Some example_payload\<rparr>"

definition example_approved :: db where
  "example_approved =
     \<lparr>users = [example_student], requests = [example_approved_request], logs = []\<rparr>"

definition example_rejected_request :: request where
  "example_rejected_request =
     example_request
       \<lparr>status := Rejected, rejectionReason := Some ''no'', rejectedAt := Some 1700000100000\<rparr>"

definition example_rejected :: db where
  "example_rejected =
     \<lparr>users = [example_student], requests = [example_rejected_request], logs = []\<rparr>"



definition example_server :: server where
  "example_server = \<lparr>store = example_db, inflight = []\<rparr>"

section \<open>Properties of the helpers\<close>



lemma find_holds: "find P xs = Some x \<Longrightarrow> P x"
  by (induction xs) (auto split: if_splits)

lemma find_map_same:
  "(\<And>x. P (g x) = P x) \<Longrightarrow> find P (map g xs) = map_option g (find P xs)"
  by (induction xs) auto

lemma find_update_first:
  "(\<And>x. P x \<Longrightarrow> P (f x)) \<Longrightarrow> find P (update_first P f xs) = map_option f (find P xs)"
  by (induction xs) auto

lemma find_update_first_const:
  "find P xs = Some x \<Longrightarrow> P y \<Longrightarrow> find P (update_first P (\<lambda>_. y) xs) = Some y"
  by (induction xs) (auto split: if_splits)

lemma length_update_first [simp]: "length (update_first P f xs) = length xs"
  by (induction xs) auto

lemma update_first_nth:
  "i < length xs \<Longrightarrow>
     update_first P f xs ! i = xs ! i \<or>
     (find P xs = Some (xs ! i) \<and> update_first P f xs ! i = f (xs ! i))"
proof (induction xs arbitrary: i)
  case Nil
  then show ?case by simp
next
  case (Cons x xs)
  show ?case
  proof (cases i)
    case 0
    then show ?thesis by simp
  next
    case (Suc j)
    with Cons.prems have "j < length xs" by simp
    from Cons.IH [OF this] Suc show ?thesis by auto
  qed
qed

lemma update_first_status:
  assumes "i < length xs" and "status (xs ! i) \<noteq> Pending"
    and "\<And>x. find P xs = Some x \<Longrightarrow> status x = Pending \<or> status (f x) = status x"
  shows "status (update_first P f xs ! i) = status (xs ! i)"
  using update_first_nth [OF assms(1), of P f] assms(2,3) by auto

lemma status_mark_used [simp]: "status (mark_used r) = status r"
  by (simp add: mark_used_def split: option.splits)

lemma req_id_mark_used [simp]: "req_id (mark_used r) = req_id r"
  by (simp add: mark_used_def split: option.splits)

lemma run_append: "run (xs @ ys) d = run ys (run xs d)"
  by (induction xs arbitrary: d) auto

lemma run_verify_only: "run (map (\<lambda>(t, p). Verify t p) scans) d = d"
  by (induction scans arbitrary: d) auto

section \<open>What the handlers do on their success paths\<close>

lemma approve_success:
  assumes "approve now enc rid rm d = (d', Inr r')"
  obtains s r url where "rid = Some s" and "s \<noteq> []"
    and "find (\<lambda>r. req_id r = s) (requests d) = Some r" and "status r = Pending"
    and "r' = r\<lparr>status := Approved,
                 moderatorRemarks := Some (if falsy_str rm then ''Approved'' else the rm),
                 approvedAt := Some now,
                 expiresAt := Some (js_trunc (of_int now + duration r * 60 * 60 * 1000)),
                 qrCode := Some url,
                 qrData := Some \<lparr>passId = req_id r, qr_studentId = studentId r,
                                 qr_studentName = studentName r, qr_reason = reason r,
                                 qr_approvedAt = now,
                                 qr_expiresAt =
                                   js_trunc (of_int now + duration r * 60 * 60 * 1000),
                                 used = False\<rparr>\<rparr>"
    and "d' = d\<lparr>requests := update_first (\<lambda>r. req_id r = s) (\<lambda>_. r') (requests d)\<rparr>"
  using assms
  by (cases rid) (auto simp: approve_def Let_def falsy_str_def split: option.splits if_splits)

lemma approve_stored:
  assumes "approve now enc rid rm d = (d', Inr r')"
  shows "find (\<lambda>r. req_id r = the rid) (requests d') = Some r'"
proof -
  from assms obtain s r where s: "rid = Some s"
    and f: "find (\<lambda>r. req_id r = s) (requests d) = Some r"
    and i: "req_id r' = req_id r"
    and d': "d' = d\<lparr>requests := update_first (\<lambda>r. req_id r = s) (\<lambda>_. r') (requests d)\<rparr>"
    by (rule approve_success) simp
  from find_holds [OF f] i have "req_id r' = s" by simp
  from find_update_first_const [OF f, of r'] this s d' show ?thesis by simp
qed

lemma approve_split:
  "approve now enc rid rm d =
     (case approve_begin now enc rid rm d of
        Inl e \<Rightarrow> (d, Inl e)
      | Inr s \<Rightarrow> approve_resume s d)"
  by (simp add: approve_def approve_begin_def approve_resume_def Let_def split: option.splits)

lemma execs_atomic: "store (execs (map Atomic ops) s) = run ops (store s)"
  by (induction ops arbitrary: s) auto

lemma recordEntry_requests:
  assumes "pid \<noteq> []" and "ty \<noteq> []" and "find (\<lambda>r. req_id r = pid) (requests d) = Some r"
  shows "recordEntry t rnd now (Some pid) (Some ty) d =
           (d\<lparr>requests := update_first (\<lambda>r. req_id r = pid) mark_used (requests d),
               logs := logs d @
                 [\<lparr>log_id = generateID ''LOG'' t rnd, log_passId = pid,
                   log_studentId = studentId r, log_studentName = studentName r,
                   log_type = ty, log_timestamp = now, log_reason = reason r\<rparr>]\<rparr>,
            Inr \<lparr>log_id = generateID ''LOG'' t rnd, log_passId = pid,
                  log_studentId = studentId r, log_studentName = studentName r,
                  log_type = ty, log_timestamp = now, log_reason = reason r\<rparr>)"
  using assms by (simp add: recordEntry_def falsy_str_def Let_def)

lemma recordEntry_stored_used:
  assumes "pid \<noteq> []" and "ty \<noteq> []" and "stored_used pid d = Some b"
  shows "stored_used pid (fst (recordEntry t rnd now (Some pid) (Some ty) d)) = Some True"
    and "\<exists>e. snd (recordEntry t rnd now (Some pid) (Some ty) d) = Inr e"
proof -
  from assms(3) obtain r q where f: "find (\<lambda>r. req_id r = pid) (requests d) = Some r"
    and q: "qrData r = Some q"
    by (auto simp: stored_used_def split: option.splits)
  have "find (\<lambda>r. req_id r = pid) (update_first (\<lambda>r. req_id r = pid) mark_used (requests d))
          = Some (mark_used r)"
    using f by (simp add: find_update_first)
  with q show "stored_used pid (fst (recordEntry t rnd now (Some pid) (Some ty) d)) = Some True"
    by (simp add: recordEntry_requests [OF assms(1,2) f] stored_used_def mark_used_def)
  show "\<exists>e. snd (recordEntry t rnd now (Some pid) (Some ty) d) = Inr e"
    by (simp add: recordEntry_requests [OF assms(1,2) f])
qed

lemma reject_twice:
  assumes "reject now1 (Some rid) (Some rs1) d = (d1, Inr r1)" and "rs \<noteq> []"
  shows "reject now (Some rid) (Some rs) d1 = (d1, Inl (HttpError 400 ''Request already processed''))
      \<and> find (\<lambda>r. req_id r = rid) (requests d1) = Some r1
      \<and> status r1 = Rejected \<and> rejectionReason r1 = Some rs1 \<and> rejectedAt r1 = Some now1"
proof -
  from assms(1) obtain r where ne: "rid \<noteq> []"
    and f: "find (\<lambda>r. req_id r = rid) (requests d) = Some r"
    and r1: "r1 = r\<lparr>status := Rejected, rejectionReason := Some rs1, rejectedAt := Some now1\<rparr>"
    and d1: "d1 = d\<lparr>requests := update_first (\<lambda>r. req_id r = rid) (\<lambda>_. r1) (requests d)\<rparr>"
    by (auto simp: reject_def falsy_str_def Let_def split: option.splits if_splits)
  from find_holds [OF f] r1 have "req_id r1 = rid" by simp
  from find_update_first_const [OF f, of r1] this d1
  have f1: "find (\<lambda>r. req_id r = rid) (requests d1) = Some r1" by simp
  from r1 have st: "status r1 = Rejected" "rejectionReason r1 = Some rs1"
    "rejectedAt r1 = Some now1"
    by simp_all
  from assms(2) ne f1 st
  have "reject now (Some rid) (Some rs) d1 = (d1, Inl (HttpError 400 ''Request already processed''))"
    by (simp add: reject_def falsy_str_def)
  with f1 st show ?thesis by simp
qed

lemma step_status:
  assumes "i < length (requests d)" and "status (requests d ! i) \<noteq> Pending"
  shows "i < length (requests (step x d)) \<and>
         status (requests (step x d) ! i) = status (requests d ! i)"
proof (cases x)
  case (CreateRequest t rnd now s r e du)
  with assms show ?thesis
    by (auto simp: createRequest_def nth_append Let_def split: option.splits)
next
  case (Approve now enc rid rm)
  with assms show ?thesis
    by (auto simp: approve_def Let_def split: option.splits intro!: update_first_status)
next
  case (Reject now rid rs)
  with assms show ?thesis
    by (auto simp: reject_def Let_def split: option.splits intro!: update_first_status)
next
  case (Verify now p)
  with assms show ?thesis by simp
next
  case (RecordEntry t rnd now pid ty)
  with assms show ?thesis
    by (auto simp: recordEntry_def Let_def split: option.splits intro!: update_first_status)
qed

lemma run_status:
  "i < length (requests d) \<Longrightarrow> status (requests d ! i) \<noteq> Pending \<Longrightarrow>
   i < length (requests (run xs d)) \<and>
   status (requests (run xs d) ! i) = status (requests d ! i)"
proof (induction xs arbitrary: d)
  case Nil
  then show ?case by simp
next
  case (Cons x xs)
  from step_status [OF Cons.prems] have
    s: "i < length (requests (step x d))"
       "status (requests (step x d) ! i) = status (requests d ! i)" by simp_all
  with Cons.prems have "status (requests (step x d) ! i) \<noteq> Pending" by simp
  from Cons.IH [OF s(1) this] s show ?case by simp
qed

lemmas example_defs =
  example_student_def example_request_def example_db_def example_payload_def
  example_encoder_def example_approved_request_def example_approved_def
  example_rejected_request_def example_rejected_def

lemma example_approve:
  "approve 1700000100000 example_encoder (Some ''REQ1700000000000123'') (Some ''ok'') example_db
     = (example_approved, Inr example_approved_request)"
  by (simp add: approve_def falsy_str_def valid_date_def js_trunc_def Let_def example_defs)

lemma example_reject:
  "reject 1700000100000 (Some ''REQ1700000000000123'') (Some ''no'') example_db
     = (example_rejected, Inr example_rejected_request)"
  by (simp add: reject_def falsy_str_def Let_def example_defs)

section \<open>The request lifecycle and the pass checks\<close>

text \<open>
  \<^bold>\<open>C1.\<close> For every store and every parsed payload, the verifier decides in the order
  existence, approval, single use, expiry. It answers \<open>valid = False\<close>, red,
  ``Pass not found'' when no request has the payload's \<open>passId\<close>; otherwise
  ``Pass not approved'' when the request found is not approved; otherwise
  ``Pass already used'' when the payload's \<open>used\<close> is true, whatever the expiry;
  otherwise ``Pass expired'' with the payload as details when the current time is
  strictly greater than the payload's \<open>expiresAt\<close>; otherwise \<open>valid = True\<close>, green,
  ``Valid pass'' with the payload as details.
\<close>

theorem verify_order:
  "(find (\<lambda>r. req_id r = passId p) (requests d) = None \<longrightarrow>
      verify now p d =
        \<lparr>valid = False, message = ''Pass not found'', color = ''red'', details = None\<rparr>) \<and>
   (\<forall>r. find (\<lambda>r. req_id r = passId p) (requests d) = Some r \<and> status r \<noteq> Approved \<longrightarrow>
      verify now p d =
        \<lparr>valid = False, message = ''Pass not approved'', color = ''red'', details = None\<rparr>) \<and>
   (\<forall>r. find (\<lambda>r. req_id r = passId p) (requests d) = Some r \<and> status r = Approved \<and> used p \<longrightarrow>
      verify now p d =
        \<lparr>valid = False, message = ''Pass already used'', color = ''red'', details = None\<rparr>) \<and>
   (\<forall>r. find (\<lambda>r. req_id r = passId p) (requests d) = Some r \<and> status r = Approved \<and> \<not> used p
        \<and> now > qr_expiresAt p \<longrightarrow>
      verify now p d =
        \<lparr>valid = False, message = ''Pass expired'', color = ''red'', details = Some p\<rparr>) \<and>
   (\<forall>r. find (\<lambda>r. req_id r = passId p) (requests d) = Some r \<and> status r = Approved \<and> \<not> used p
        \<and> \<not> now > qr_expiresAt p \<longrightarrow>
      verify now p d =
        \<lparr>valid = True, message = ''Valid pass'', color = ''green'', details = Some p\<rparr>)"
  by (simp add: verify_def)

theorem verify_order_witness:
  "verify 1700000200000 (example_payload\<lparr>passId := ''REQ0''\<rparr>) example_approved =
     \<lparr>valid = False, message = ''Pass not found'', color = ''red'', details = None\<rparr> \<and>
   verify 1700000200000 (example_payload\<lparr>used := True\<rparr>) example_db =
     \<lparr>valid = False, message = ''Pass not approved'', color = ''red'', details = None\<rparr> \<and>
   verify 1700009900000 (example_payload\<lparr>used := True\<rparr>) example_approved =
     \<lparr>valid = False, message = ''Pass already used'', color = ''red'', details = None\<rparr> \<and>
   verify 1700007300001 example_payload example_approved =
     \<lparr>valid = False, message = ''Pass expired'', color = ''red'',
      details = Some example_payload\<rparr> \<and>
   verify 1700007300000 example_payload example_approved =
     \<lparr>valid = True, message = ''Valid pass'', color = ''green'',
      details = Some example_payload\<rparr>"
  using verify_order [of "example_payload\<lparr>passId := ''REQ0''\<rparr>" example_approved 1700000200000]
    verify_order [of "example_payload\<lparr>used := True\<rparr>" example_db 1700000200000]
    verify_order [of "example_payload\<lparr>used := True\<rparr>" example_approved 1700009900000]
    verify_order [of example_payload example_approved 1700007300001]
    verify_order [of example_payload example_approved 1700007300000]
  by (simp add: example_defs)

text \<open>
  \<^bold>\<open>C2.\<close> After a successful approval the \<open>used\<close> flag of the stored pass is false.
  The first \<open>recordEntry\<close> for that pass succeeds and sets it to true, for the type
  ``entry'', for ``exit'' and for every other non-empty type, whether or not the
  verifier was called in between (\<open>scans\<close> is any list of verifier calls); a second
  \<open>recordEntry\<close> succeeds and leaves it true.
\<close>

theorem used_flag_lifecycle:
  assumes "approve now enc (Some rid) rm d = (d1, Inr r1)"
    and "ty1 \<noteq> []" and "ty2 \<noteq> []"
    and "d1' = run (map (\<lambda>(t, p). Verify t p) scans) d1"
    and "d2 = fst (recordEntry t1 rnd1 now1 (Some rid) (Some ty1) d1')"
    and "d3 = fst (recordEntry t2 rnd2 now2 (Some rid) (Some ty2) d2)"
  shows "stored_used rid d1 = Some False \<and>
         (\<exists>e. snd (recordEntry t1 rnd1 now1 (Some rid) (Some ty1) d1') = Inr e) \<and>
         stored_used rid d2 = Some True \<and>
         (\<exists>e. snd (recordEntry t2 rnd2 now2 (Some rid) (Some ty2) d2) = Inr e) \<and>
         stored_used rid d3 = Some True"
proof -
  from assms(1) have ne: "rid \<noteq> []" and u: "qrData r1 \<noteq> None" "map_option used (qrData r1) = Some False"
    by (auto elim!: approve_success)
  from approve_stored [OF assms(1)] u have s1: "stored_used rid d1 = Some False"
    by (simp add: stored_used_def)
  have d1': "d1' = d1" using assms(4) by (simp add: run_verify_only)
  from recordEntry_stored_used [OF ne assms(2) s1, of t1 rnd1 now1] d1' assms(5)
  have s2: "stored_used rid d2 = Some True"
    and e1: "\<exists>e. snd (recordEntry t1 rnd1 now1 (Some rid) (Some ty1) d1') = Inr e"
    by simp_all
  from recordEntry_stored_used [OF ne assms(3) s2, of t2 rnd2 now2] assms(6)
  have s3: "stored_used rid d3 = Some True"
    and e2: "\<exists>e. snd (recordEntry t2 rnd2 now2 (Some rid) (Some ty2) d2) = Inr e"
    by simp_all
  from s1 s2 s3 e1 e2 show ?thesis by simp
qed

theorem used_flag_lifecycle_witness:
  "approve 1700000100000 example_encoder (Some ''REQ1700000000000123'') (Some ''ok'') example_db
     = (example_approved, Inr example_approved_request) \<and>
   stored_used ''REQ1700000000000123'' example_approved = Some False \<and>
   stored_used ''REQ1700000000000123''
     (fst (recordEntry 1700000300000 5 1700000300001 (Some ''REQ1700000000000123'')
        (Some ''exit'') example_approved)) = Some True \<and>
   stored_used ''REQ1700000000000123''
     (fst (recordEntry 1700000400000 6 1700000400001 (Some ''REQ1700000000000123'')
        (Some ''entry'')
        (fst (recordEntry 1700000300000 5 1700000300001 (Some ''REQ1700000000000123'')
           (Some ''exit'') example_approved)))) = Some True"
  using used_flag_lifecycle
      [where ?ty1.0 = "''exit''" and ?ty2.0 = "''entry''"
         and scans = "[(1700000200000, example_payload)]"
         and ?t1.0 = 1700000300000 and ?rnd1.0 = 5 and ?now1.0 = 1700000300001
         and ?t2.0 = 1700000400000 and ?rnd2.0 = 6 and ?now2.0 = 1700000400001,
       OF example_approve _ _ refl refl refl]
    example_approve
  by simp

text \<open>
  \<^bold>\<open>C3.\<close> When the encoder fails on the pass built for a pending request, the approval
  answers status 500, ``Failed to generate QR code'', and the store is the one it was
  given: the request is still pending and none of its fields has been assigned.
\<close>

theorem approve_encoding_failure_atomic:
  assumes "rid \<noteq> []" and "find (\<lambda>r. req_id r = rid) (requests d) = Some r"
    and "status r = Pending"
    and "valid_date (of_int now + duration r * 60 * 60 * 1000)"
    and "enc \<lparr>passId = req_id r, qr_studentId = studentId r, qr_studentName = studentName r,
               qr_reason = reason r, qr_approvedAt = now,
               qr_expiresAt = js_trunc (of_int now + duration r * 60 * 60 * 1000),
               used = False\<rparr> = None"
  shows "approve now enc (Some rid) rm d = (d, Inl (HttpError 500 ''Failed to generate QR code''))"
  using assms by (simp add: approve_def falsy_str_def Let_def)

theorem approve_encoding_failure_witness:
  "find (\<lambda>r. req_id r = ''REQ1700000000000123'') (requests example_db) = Some example_request \<and>
   status example_request = Pending \<and>
   approve 1700000100000 (\<lambda>q. None) (Some ''REQ1700000000000123'') (Some ''ok'') example_db
     = (example_db, Inl (HttpError 500 ''Failed to generate QR code''))"
proof -
  have f: "find (\<lambda>r. req_id r = ''REQ1700000000000123'') (requests example_db) = Some example_request"
    by (simp add: example_defs)
  have p: "status example_request = Pending" by (simp add: example_defs)
  have v: "valid_date (of_int 1700000100000 + duration example_request * 60 * 60 * 1000)"
    by (simp add: valid_date_def example_defs)
  from approve_encoding_failure_atomic [OF _ f p v, of "\<lambda>q. None" "Some ''ok''"] f p
  show ?thesis by simp
qed




text \<open>
  \<^bold>\<open>C5.\<close> Approved and rejected are terminal as long as every call runs whole, an
  approval with nothing between its two halves. Requests are only ever appended, so a
  request is followed by its position in the array: if after any sequence of whole calls
  \<open>ops1\<close> the request at position \<open>i\<close> is not pending, then after any further sequence
  \<open>ops2\<close> of whole calls it is still at position \<open>i\<close> with the same status. A status
  therefore leaves pending at most once and never moves between approved and rejected.
\<close>

theorem status_terminal:
  "i < length (requests (store (execs (map Atomic ops1) s))) \<Longrightarrow>
   status (requests (store (execs (map Atomic ops1) s)) ! i) \<noteq> Pending \<Longrightarrow>
   i < length (requests (store (execs (map Atomic (ops1 @ ops2)) s))) \<and>
   status (requests (store (execs (map Atomic (ops1 @ ops2)) s)) ! i) =
     status (requests (store (execs (map Atomic ops1) s)) ! i)"
  unfolding execs_atomic run_append by (rule run_status)

theorem status_terminal_witness:
  "0 < length (requests (store (execs
         (map Atomic [Reject 1700000100000 (Some ''REQ1700000000000123'') (Some ''no'')])
         example_server))) \<and>
   status (requests (store (execs
         (map Atomic [Reject 1700000100000 (Some ''REQ1700000000000123'') (Some ''no'')])
         example_server)) ! 0) = Rejected \<and>
   status (requests (store (execs
         (map Atomic
            ([Reject 1700000100000 (Some ''REQ1700000000000123'') (Some ''no'')] @
             [Approve 1700000200000 example_encoder (Some ''REQ1700000000000123'') None,
              RecordEntry 1700000300000 5 1700000300001 (Some ''REQ1700000000000123'')
                (Some ''exit''),
              Reject 1700000400000 (Some ''REQ1700000000000123'') (Some ''again'')]))
         example_server)) ! 0) = Rejected"
proof -
  have r: "store (execs
             (map Atomic [Reject 1700000100000 (Some ''REQ1700000000000123'') (Some ''no'')])
             example_server) = example_rejected"
    by (simp add: example_reject example_server_def)
  have l: "0 < length (requests (store (execs
             (map Atomic [Reject 1700000100000 (Some ''REQ1700000000000123'') (Some ''no'')])
             example_server)))"
    unfolding r by (simp add: example_defs)
  have s: "status (requests (store (execs
             (map Atomic [Reject 1700000100000 (Some ''REQ1700000000000123'') (Some ''no'')])
             example_server)) ! 0) = Rejected"
    unfolding r by (simp add: example_defs)
  then have n: "status (requests (store (execs
             (map Atomic [Reject 1700000100000 (Some ''REQ1700000000000123'') (Some ''no'')])
             example_server)) ! 0) \<noteq> Pending"
    by simp
  from status_terminal [OF l n,
      of "[Approve 1700000200000 example_encoder (Some ''REQ1700000000000123'') None,
           RecordEntry 1700000300000 5 1700000300001 (Some ''REQ1700000000000123'')
             (Some ''exit''),
           Reject 1700000400000 (Some ''REQ1700000000000123'') (Some ''again'')]"] l s
  show ?thesis by simp
qed

text \<open>An approval reads the store and gives way; a rejection of the same request runs
  whole and the store holds the request as rejected; the approval then finishes on the
  document it read and writes it, and the store holds the request as approved.\<close>

theorem status_race_counterexample:
  "status (requests (store (execs
      [ApproveBegin 1700000100000 example_encoder (Some ''REQ1700000000000123'') (Some ''ok''),
       Atomic (Reject 1700000100050 (Some ''REQ1700000000000123'') (Some ''no''))]
      example_server)) ! 0) = Rejected \<and>
   status (requests (store (execs
      [ApproveBegin 1700000100000 example_encoder (Some ''REQ1700000000000123'') (Some ''ok''),
       Atomic (Reject 1700000100050 (Some ''REQ1700000000000123'') (Some ''no'')),
       ApproveResume 0]
      example_server)) ! 0) = Approved"
  by (simp add: approve_begin_def approve_resume_def reject_def falsy_str_def valid_date_def
      js_trunc_def Let_def example_defs example_server_def)

text \<open>
  \<^bold>\<open>C6.\<close> Approving a request whose status is not pending answers status 400,
  ``Request already processed'', and leaves the store as it was; so does rejecting one
  (with a reason given). In particular, after a successful rejection a second rejection
  fails that way, and the stored request keeps the status, the \<open>rejectionReason\<close> and
  the \<open>rejectedAt\<close> of the first.
\<close>

theorem non_pending_is_invalid_state:
  "(\<forall>r. rid \<noteq> [] \<and> find (\<lambda>r. req_id r = rid) (requests d) = Some r \<and> status r \<noteq> Pending \<longrightarrow>
      approve now enc (Some rid) rm d = (d, Inl (HttpError 400 ''Request already processed''))) \<and>
   (\<forall>r. rid \<noteq> [] \<and> rs \<noteq> [] \<and> find (\<lambda>r. req_id r = rid) (requests d) = Some r
        \<and> status r \<noteq> Pending \<longrightarrow>
      reject now (Some rid) (Some rs) d = (d, Inl (HttpError 400 ''Request already processed''))) \<and>
   (\<forall>d1 r1. reject now1 (Some rid) (Some rs1) d = (d1, Inr r1) \<and> rs \<noteq> [] \<longrightarrow>
      reject now (Some rid) (Some rs) d1 = (d1, Inl (HttpError 400 ''Request already processed''))
      \<and> find (\<lambda>r. req_id r = rid) (requests d1) = Some r1
      \<and> status r1 = Rejected \<and> rejectionReason r1 = Some rs1 \<and> rejectedAt r1 = Some now1)"
proof -
  have a: "\<forall>r. rid \<noteq> [] \<and> find (\<lambda>r. req_id r = rid) (requests d) = Some r \<and> status r \<noteq> Pending \<longrightarrow>
      approve now enc (Some rid) rm d = (d, Inl (HttpError 400 ''Request already processed''))"
    by (simp add: approve_def falsy_str_def)
  have b: "\<forall>r. rid \<noteq> [] \<and> rs \<noteq> [] \<and> find (\<lambda>r. req_id r = rid) (requests d) = Some r
        \<and> status r \<noteq> Pending \<longrightarrow>
      reject now (Some rid) (Some rs) d = (d, Inl (HttpError 400 ''Request already processed''))"
    by (simp add: reject_def falsy_str_def)
  have c: "\<forall>d1 r1. reject now1 (Some rid) (Some rs1) d = (d1, Inr r1) \<and> rs \<noteq> [] \<longrightarrow>
      reject now (Some rid) (Some rs) d1 = (d1, Inl (HttpError 400 ''Request already processed''))
      \<and> find (\<lambda>r. req_id r = rid) (requests d1) = Some r1
      \<and> status r1 = Rejected \<and> rejectionReason r1 = Some rs1 \<and> rejectedAt r1 = Some now1"
    using reject_twice by blast
  from a b c show ?thesis by (intro conjI)
qed

theorem non_pending_is_invalid_state_witness:
  "approve 1700000200000 example_encoder (Some ''REQ1700000000000123'') None example_rejected
     = (example_rejected, Inl (HttpError 400 ''Request already processed'')) \<and>
   reject 1700000200000 (Some ''REQ1700000000000123'') (Some ''late'') example_approved
     = (example_approved, Inl (HttpError 400 ''Request already processed'')) \<and>
   reject 1700000100000 (Some ''REQ1700000000000123'') (Some ''no'') example_db
     = (example_rejected, Inr example_rejected_request) \<and>
   reject 1700000200000 (Some ''REQ1700000000000123'') (Some ''late'') example_rejected
     = (example_rejected, Inl (HttpError 400 ''Request already processed'')) \<and>
   rejectionReason example_rejected_request = Some ''no'' \<and>
   rejectedAt example_rejected_request = Some 1700000100000"
  using non_pending_is_invalid_state
      [of "''REQ1700000000000123''" example_rejected 1700000200000 example_encoder None
          "''late''" 1700000100000 "''no''"]
    non_pending_is_invalid_state
      [of "''REQ1700000000000123''" example_approved 1700000200000 example_encoder None
          "''late''" 1700000100000 "''no''"]
    non_pending_is_invalid_state
      [of "''REQ1700000000000123''" example_db 1700000200000 example_encoder None
          "''late''" 1700000100000 "''no''"]
    example_reject
  by (simp add: example_defs)

text \<open>
  \<^bold>\<open>C7.\<close> \<open>createRequest\<close> answers status 400 and leaves the store as it was when one
  of the four fields is absent, an empty string or, for the duration, zero. With four
  fields that pass this check it answers status 404 and leaves the store as it was when
  no user has the given identifier and the role ``student''; otherwise it appends one
  pending request with a generated identifier and the name of the first such user, all
  optional fields empty, and answers with that request. The requests already stored are
  kept as they were.
\<close>

theorem createRequest_cases:
  "(falsy_str sid \<or> falsy_str rs \<or> falsy_str et \<or> falsy_num du \<longrightarrow>
      createRequest t rnd now sid rs et du d = (d, Inl (HttpError 400 ''All fields required''))) \<and>
   (\<not> falsy_str sid \<and> \<not> falsy_str rs \<and> \<not> falsy_str et \<and> \<not> falsy_num du \<and>
    find (\<lambda>u. user_id u = the sid \<and> role u = ''student'') (users d) = None \<longrightarrow>
      createRequest t rnd now sid rs et du d = (d, Inl (HttpError 404 ''Student not found''))) \<and>
   (\<forall>u. \<not> falsy_str sid \<and> \<not> falsy_str rs \<and> \<not> falsy_str et \<and> \<not> falsy_num du \<and>
    find (\<lambda>u. user_id u = the sid \<and> role u = ''student'') (users d) = Some u \<longrightarrow>
      (\<exists>r. createRequest t rnd now sid rs et du d = (d\<lparr>requests := requests d @ [r]\<rparr>, Inr r) \<and>
           status r = Pending \<and> req_id r = generateID ''REQ'' t rnd \<and>
           studentName r = name u \<and> studentId r = the sid \<and> reason r = the rs \<and>
           expectedTime r = the et \<and> duration r = the du \<and> createdAt r = now \<and>
           moderatorRemarks r = None \<and> qrCode r = None \<and> expiresAt r = None \<and>
           approvedAt r = None \<and> rejectionReason r = None \<and> rejectedAt r = None \<and>
           qrData r = None))"
  by (simp add: createRequest_def Let_def)

theorem createRequest_cases_witness:
  "createRequest 1700000200000 7 1700000200001 (Some ''S001'') None (Some ''10:00'') (Some 2)
     example_db = (example_db, Inl (HttpError 400 ''All fields required'')) \<and>
   createRequest 1700000200000 7 1700000200001 (Some ''S999'') (Some ''fair'') (Some ''10:00'')
     (Some 2) example_db = (example_db, Inl (HttpError 404 ''Student not found'')) \<and>
   (\<exists>r. createRequest 1700000200000 7 1700000200001 (Some ''S001'') (Some ''fair'')
          (Some ''10:00'') (Some 2) example_db
            = (example_db\<lparr>requests := requests example_db @ [r]\<rparr>, Inr r) \<and>
        status r = Pending \<and> req_id r = generateID ''REQ'' 1700000200000 7 \<and>
        studentName r = ''Asha'')"
proof -
  have n: "find (\<lambda>u. user_id u = ''S999'' \<and> role u = ''student'') (users example_db) = None"
    by (simp add: example_defs)
  have f: "find (\<lambda>u. user_id u = ''S001'' \<and> role u = ''student'') (users example_db)
             = Some example_student"
    by (simp add: example_defs)
  have a: "createRequest 1700000200000 7 1700000200001 (Some ''S001'') None (Some ''10:00'')
      (Some 2) example_db = (example_db, Inl (HttpError 400 ''All fields required''))"
    using createRequest_cases
      [of "Some ''S001''" None "Some ''10:00''" "Some 2" 1700000200000 7 1700000200001 example_db]
    by (simp add: falsy_str_def)
  have b: "createRequest 1700000200000 7 1700000200001 (Some ''S999'') (Some ''fair'')
      (Some ''10:00'') (Some 2) example_db = (example_db, Inl (HttpError 404 ''Student not found''))"
    using n createRequest_cases
      [of "Some ''S999''" "Some ''fair''" "Some ''10:00''" "Some 2" 1700000200000 7
          1700000200001 example_db]
    by (simp add: falsy_str_def falsy_num_def)
  have c: "\<exists>r. createRequest 1700000200000 7 1700000200001 (Some ''S001'') (Some ''fair'')
          (Some ''10:00'') (Some 2) example_db
            = (example_db\<lparr>requests := requests example_db @ [r]\<rparr>, Inr r) \<and>
        status r = Pending \<and> req_id r = generateID ''REQ'' 1700000200000 7 \<and>
        studentName r = ''Asha''"
    using f createRequest_cases
      [of "Some ''S001''" "Some ''fair''" "Some ''10:00''" "Some 2" 1700000200000 7
          1700000200001 example_db]
    by (auto simp: falsy_str_def falsy_num_def example_student_def)
  from a b c show ?thesis by (intro conjI)
qed

text \<open>A duration of zero is present in the body and the student exists, and the
  request is turned down with status 400.\<close>

theorem createRequest_zero_duration_counterexample:
  "users example_db = [example_student] \<and>
   user_id example_student = ''S001'' \<and> role example_student = ''student'' \<and>
   createRequest 1700000200000 7 1700000200001 (Some ''S001'') (Some ''medical'') (Some ''10:00'')
     (Some 0) example_db = (example_db, Inl (HttpError 400 ''All fields required''))"
  by (simp add: createRequest_def falsy_str_def falsy_num_def example_db_def example_student_def)

text \<open>
  \<^bold>\<open>C8.\<close> The verifier's answer does not depend on the \<open>used\<close> flags the store holds:
  changing them in any way leaves the answer to every payload the same. Once the
  payload's \<open>passId\<close> resolves to an approved request, the answer is the same in any two
  stores: it is decided by the current time and the payload alone.
\<close>

theorem verify_ignores_stored_used:
  "verify now p (set_stored_used f d) = verify now p d \<and>
   (\<forall>r r'. find (\<lambda>r. req_id r = passId p) (requests d) = Some r \<and> status r = Approved \<and>
          find (\<lambda>r. req_id r = passId p) (requests d') = Some r' \<and> status r' = Approved \<longrightarrow>
      verify now p d = verify now p d')"
proof
  have "find (\<lambda>r. req_id r = passId p) (requests (set_stored_used f d)) =
          map_option (\<lambda>r. case qrData r of None \<Rightarrow> r | Some q \<Rightarrow> r\<lparr>qrData := Some (q\<lparr>used := f r\<rparr>)\<rparr>)
            (find (\<lambda>r. req_id r = passId p) (requests d))"
    unfolding set_stored_used_def
    by (simp add: find_map_same split: option.splits)
  then show "verify now p (set_stored_used f d) = verify now p d"
    by (auto simp: verify_def split: option.splits)
next
  show "\<forall>r r'. find (\<lambda>r. req_id r = passId p) (requests d) = Some r \<and> status r = Approved \<and>
          find (\<lambda>r. req_id r = passId p) (requests d') = Some r' \<and> status r' = Approved \<longrightarrow>
      verify now p d = verify now p d'"
    by (simp add: verify_def)
qed

theorem verify_ignores_stored_used_witness:
  "stored_used ''REQ1700000000000123'' (set_stored_used (\<lambda>r. True) example_approved) = Some True \<and>
   stored_used ''REQ1700000000000123'' example_approved = Some False \<and>
   verify 1700000200000 example_payload (set_stored_used (\<lambda>r. True) example_approved) =
     verify 1700000200000 example_payload example_approved \<and>
   verify 1700000200000 example_payload example_approved =
     verify 1700000200000 example_payload
       (fst (recordEntry 1700000300000 5 1700000300001 (Some ''REQ1700000000000123'')
          (Some ''exit'') example_approved))"
proof -
  have u: "stored_used ''REQ1700000000000123'' (set_stored_used (\<lambda>r. True) example_approved)
             = Some True"
    "stored_used ''REQ1700000000000123'' example_approved = Some False"
    by (simp_all add: stored_used_def set_stored_used_def example_defs)
  have a: "find (\<lambda>r. req_id r = passId example_payload) (requests example_approved)
             = Some example_approved_request"
    "status example_approved_request = Approved"
    by (simp_all add: example_defs)
  have b: "find (\<lambda>r. req_id r = passId example_payload)
             (requests (fst (recordEntry 1700000300000 5 1700000300001
                (Some ''REQ1700000000000123'') (Some ''exit'') example_approved)))
             = Some (mark_used example_approved_request)"
    "status (mark_used example_approved_request) = Approved"
    by (simp_all add: recordEntry_def falsy_str_def Let_def example_defs)
  from verify_ignores_stored_used
         [of 1700000200000 example_payload "\<lambda>r. True" example_approved
             "fst (recordEntry 1700000300000 5 1700000300001 (Some ''REQ1700000000000123'')
                (Some ''exit'') example_approved)"]
    u a b
  show ?thesis by simp
qed

text \<open>
  \<^bold>\<open>C9.\<close> \<open>recordEntry\<close> does not compare the type with ``entry'' or ``exit'': for a
  pass identifier that resolves and every non-empty string given as type, the call
  succeeds and the log entry it appends and answers with carries that string unchanged.
  A type that is absent or the empty string is answered with status 400 and the store
  is left as it was.
\<close>

theorem recordEntry_type_verbatim:
  "(\<forall>r. pid \<noteq> [] \<and> find (\<lambda>r. req_id r = pid) (requests d) = Some r \<and> ty \<noteq> [] \<longrightarrow>
      (\<exists>d' e. recordEntry t rnd now (Some pid) (Some ty) d = (d', Inr e) \<and>
              log_type e = ty \<and> logs d' = logs d @ [e])) \<and>
   (falsy_str type' \<longrightarrow>
      recordEntry t rnd now passId' type' d =
        (d, Inl (HttpError 400 ''Pass ID and type required'')))"
  by (simp add: recordEntry_requests) (simp add: recordEntry_def)

theorem recordEntry_type_verbatim_witness:
  "find (\<lambda>r. req_id r = ''REQ1700000000000123'') (requests example_approved)
     = Some example_approved_request \<and>
   (\<exists>d' e. recordEntry 1700000300000 5 1700000300001 (Some ''REQ1700000000000123'')
             (Some ''lunch'') example_approved = (d', Inr e) \<and>
           log_type e = ''lunch'' \<and> logs d' = logs example_approved @ [e]) \<and>
   recordEntry 1700000300000 5 1700000300001 (Some ''REQ1700000000000123'') None
     example_approved = (example_approved, Inl (HttpError 400 ''Pass ID and type required''))"
proof -
  have f: "find (\<lambda>r. req_id r = ''REQ1700000000000123'') (requests example_approved)
             = Some example_approved_request"
    by (simp add: example_defs)
  have n: "falsy_str None" by (simp add: falsy_str_def)
  from recordEntry_type_verbatim
         [of "''REQ1700000000000123''" example_approved "''lunch''" 1700000300000 5
             1700000300001 None "Some ''REQ1700000000000123''"] f n
  show ?thesis by simp
qed

text \<open>The empty string as type is turned down with status 400, for a pass identifier
  that resolves.\<close>

theorem recordEntry_empty_type_counterexample:
  "requests example_approved = [example_approved_request] \<and>
   req_id example_approved_request = ''REQ1700000000000123'' \<and>
   recordEntry 1700000300000 5 1700000300001 (Some ''REQ1700000000000123'') (Some [])
     example_approved = (example_approved, Inl (HttpError 400 ''Pass ID and type required''))"
  by (simp add: recordEntry_def falsy_str_def example_approved_def example_approved_request_def example_request_def)

text \<open>
  \<^bold>\<open>C10.\<close> \<open>recordEntry\<close> does not read the status of the request. For every request
  that the pass identifier resolves to, and a non-empty type, the call succeeds, appends
  one log entry with \<open>studentId\<close>, \<open>studentName\<close> and \<open>reason\<close> taken from the request,
  and answers with it; no status changes, and when the request has no \<open>qrData\<close> the
  requests are exactly as they were.
\<close>

theorem recordEntry_ignores_status:
  assumes "pid \<noteq> []" and "ty \<noteq> []" and "find (\<lambda>r. req_id r = pid) (requests d) = Some r"
  shows "\<exists>d' e. recordEntry t rnd now (Some pid) (Some ty) d = (d', Inr e) \<and>
           e = \<lparr>log_id = generateID ''LOG'' t rnd, log_passId = pid,
                log_studentId = studentId r, log_studentName = studentName r,
                log_type = ty, log_timestamp = now, log_reason = reason r\<rparr> \<and>
           logs d' = logs d @ [e] \<and> users d' = users d \<and>
           map status (requests d') = map status (requests d) \<and>
           (qrData r = None \<longrightarrow> requests d' = requests d)"
proof -
  have m: "map status (update_first P mark_used xs) = map status xs" for P xs
    by (induction xs) auto
  have u: "find P xs = Some r \<Longrightarrow> qrData r = None \<Longrightarrow> update_first P mark_used xs = xs" for P xs
    by (induction xs) (auto simp: mark_used_def split: if_splits)
  from m u [OF assms(3)] show ?thesis
    by (simp add: recordEntry_requests [OF assms])
qed

theorem recordEntry_ignores_status_witness:
  "find (\<lambda>r. req_id r = ''REQ1700000000000123'') (requests example_db) = Some example_request \<and>
   status example_request = Pending \<and> qrData example_request = None \<and>
   recordEntry 1700000300000 5 1700000300001 (Some ''REQ1700000000000123'') (Some ''exit'')
     example_db =
       (example_db\<lparr>logs :=
           [\<lparr>log_id = generateID ''LOG'' 1700000300000 5, log_passId = ''REQ1700000000000123'',
             log_studentId = ''S001'', log_studentName = ''Asha'', log_type = ''exit'',
             log_timestamp = 1700000300001, log_reason = ''medical''\<rparr>]\<rparr>,
        Inr \<lparr>log_id = generateID ''LOG'' 1700000300000 5, log_passId = ''REQ1700000000000123'',
             log_studentId = ''S001'', log_studentName = ''Asha'', log_type = ''exit'',
             log_timestamp = 1700000300001, log_reason = ''medical''\<rparr>)"
proof -
  have f: "find (\<lambda>r. req_id r = ''REQ1700000000000123'') (requests example_db) = Some example_request"
    by (simp add: example_defs)
  have p: "status example_request = Pending" "qrData example_request = None"
    by (simp_all add: example_defs)
  from recordEntry_ignores_status [OF _ _ f, of "''exit''" 1700000300000 5 1700000300001]
  obtain d' e where
    r: "recordEntry 1700000300000 5 1700000300001 (Some ''REQ1700000000000123'') (Some ''exit'')
          example_db = (d', Inr e)"
    and e: "e = \<lparr>log_id = generateID ''LOG'' 1700000300000 5, log_passId = ''REQ1700000000000123'',
             log_studentId = studentId example_request,
             log_studentName = studentName example_request, log_type = ''exit'',
             log_timestamp = 1700000300001, log_reason = reason example_request\<rparr>"
    and l: "logs d' = logs example_db @ [e]" and u: "users d' = users example_db"
    and q: "requests d' = requests example_db"
    using p by auto
  from l u q have "d' = example_db\<lparr>logs := [e]\<rparr>"
    by (simp add: example_db_def)
  with r e f p show ?thesis by (simp add: example_request_def)
qed

end
